theory Spec2Isabelle
  imports Complex_Main "HOL-Library.Log_Nat"
begin

section \<open>Python strings\<close>

text \<open>
  A Python \<open>str\<close> is a sequence of Unicode code points, so a string is a list of
  code points (integers) here (the euro sign of \<open>normalize_price\<close> is code point 8364, beyond
  the 8-bit \<open>char\<close>).  \<open>asc\<close> turns an ASCII literal into such a string.
\<close>

type_synonym pystr = "int list"

definition asc :: "string \<Rightarrow> pystr" where
  "asc s = map of_char s"

text \<open>
  White space is the set of \<open>str.isspace\<close>, which \<open>str.strip\<close> and the
  regular-expression class \<open>\s\<close> use.
\<close>

definition is_space :: "int \<Rightarrow> bool" where
  "is_space c =
     (c \<in> set [9, 10, 11, 12, 13, 28, 29, 30, 31, 32, 133, 160, 5760,
                8232, 8233, 8239, 8287, 12288]
      \<or> (8192 \<le> c \<and> c \<le> 8202))"

text \<open>
  Decimal digits (\<open>\d\<close>, \<open>int\<close>, \<open>float\<close>), word characters (\<open>\b\<close>) and case
  mapping (\<open>str.upper\<close>, \<open>str.lower\<close>, \<open>re.IGNORECASE\<close>) follow the Unicode
  character database of the interpreter, which grows from one version of Python to the
  next.  For the code points from 128 on the database is a parameter \<open>U\<close> of every
  function that consults it, and what is proved holds for every database; the ASCII code
  points behave alike in all of them and are written out.

  \<^item> \<open>ucd_decimal U c\<close> is the value of \<open>c\<close> as a decimal digit, if it is one (the
    Arabic-Indic digit three, code point 1635, has the value 3);
  \<^item> \<open>ucd_alnum U c\<close> is \<open>str.isalnum\<close>;
  \<^item> \<open>ucd_upper U c\<close> is the upper-case text of \<open>c\<close>, of one or more characters
    (\<open>S\<close> for the long s, code point 383; \<open>SS\<close> for the sharp s);
  \<^item> \<open>ucd_lower U s i\<close> is the lower-case text of the character at position \<open>i\<close> of
    \<open>s\<close>, which for the capital sigma depends on the characters around it;
  \<^item> \<open>ucd_ignorecase U x c\<close> tells whether the character \<open>c\<close> matches the pattern
    character \<open>x\<close> under \<open>re.IGNORECASE\<close>.
\<close>

record ucd =
  ucd_decimal :: "int \<Rightarrow> int option"
  ucd_alnum :: "int \<Rightarrow> bool"
  ucd_upper :: "int \<Rightarrow> pystr"
  ucd_lower :: "pystr \<Rightarrow> nat \<Rightarrow> pystr"
  ucd_ignorecase :: "int \<Rightarrow> int \<Rightarrow> bool"

definition is_ascii_digit :: "int \<Rightarrow> bool" where
  "is_ascii_digit c = (48 \<le> c \<and> c \<le> 57)"

definition is_ascii_alpha :: "int \<Rightarrow> bool" where
  "is_ascii_alpha c = ((65 \<le> c \<and> c \<le> 90) \<or> (97 \<le> c \<and> c \<le> 122))"

definition digit_value :: "ucd \<Rightarrow> int \<Rightarrow> int option" where
  "digit_value U c =
     (if c < 128 then (if is_ascii_digit c then Some (c - 48) else None)
      else case ucd_decimal U c of
             None \<Rightarrow> None
           | Some v \<Rightarrow> if 0 \<le> v \<and> v \<le> 9 then Some v else None)"

text \<open>\<open>\d\<close>: a decimal digit of any script.\<close>

definition is_digit :: "ucd \<Rightarrow> int \<Rightarrow> bool" where
  "is_digit U c = (digit_value U c \<noteq> None)"

text \<open>\<open>\w\<close>: a letter or a number of any script, or the underscore.\<close>

definition is_word :: "ucd \<Rightarrow> int \<Rightarrow> bool" where
  "is_word U c =
     (if c < 128 then is_ascii_digit c \<or> is_ascii_alpha c \<or> c = 95 else ucd_alnum U c)"

definition upper_chr :: "int \<Rightarrow> int" where
  "upper_chr c = (if 97 \<le> c \<and> c \<le> 122 then c - 32 else c)"

definition lower_chr :: "int \<Rightarrow> int" where
  "lower_chr c = (if 65 \<le> c \<and> c \<le> 90 then c + 32 else c)"

text \<open>\<open>s.upper()\<close> and \<open>s.lower()\<close>: each character is replaced by its mapping.\<close>

definition upper :: "ucd \<Rightarrow> pystr \<Rightarrow> pystr" where
  "upper U s = concat (map (\<lambda>c. if c < 128 then [upper_chr c] else ucd_upper U c) s)"

definition lower :: "ucd \<Rightarrow> pystr \<Rightarrow> pystr" where
  "lower U s =
     concat (map (\<lambda>(i, c). if c < 128 then [lower_chr c] else ucd_lower U s i) (enumerate 0 s))"

text \<open>\<open>s.strip()\<close>: white space removed at both ends.\<close>

definition strip :: "pystr \<Rightarrow> pystr" where
  "strip s = rev (dropWhile is_space (rev (dropWhile is_space s)))"

text \<open>\<open>sep.join(parts)\<close>.\<close>

fun join :: "pystr \<Rightarrow> pystr list \<Rightarrow> pystr" where
  "join sep [] = []"
| "join sep [x] = x"
| "join sep (x # y # ys) = x @ sep @ join sep (y # ys)"

text \<open>\<open>needle in hay\<close> for strings: \<open>needle\<close> occurs as a contiguous substring.\<close>

fun contains :: "pystr \<Rightarrow> pystr \<Rightarrow> bool" where
  "contains [] needle = (needle = [])"
| "contains (c # cs) needle = (take (length needle) (c # cs) = needle \<or> contains cs needle)"

text \<open>Decimal numerals: the value of a digit string, and \<open>str(n)\<close> of an integer.\<close>

definition digits_val :: "pystr \<Rightarrow> int" where
  "digits_val ds = foldl (\<lambda>a c. 10 * a + (c - 48)) 0 ds"

function str_nat :: "int \<Rightarrow> pystr" where
  "str_nat n = (if n < 10 then [48 + n] else str_nat (n div 10) @ [48 + n mod 10])"
  by pat_completeness auto
termination
  by (relation "measure nat") auto

declare str_nat.simps [simp del]

definition str_int :: "int \<Rightarrow> pystr" where
  "str_int i = (if i < 0 then 45 # str_nat (- i) else str_nat i)"

section \<open>Python numbers\<close>

datatype exn = ValueError | AttributeError | OverflowError

text \<open>
  In \<open>int(s)\<close> and \<open>float(s)\<close> an underscore may stand between two digits and nowhere
  else; \<open>strip_us prev s\<close> removes them, \<open>prev\<close> being the character before \<open>s\<close>.
\<close>

fun strip_us :: "int \<Rightarrow> pystr \<Rightarrow> pystr option" where
  "strip_us prev [] = (if prev = 95 then None else Some [])"
| "strip_us prev (c # cs) =
     (if c = 95 then (if is_ascii_digit prev then strip_us c cs else None)
      else if prev = 95 \<and> \<not> is_ascii_digit c then None
      else map_option ((#) c) (strip_us c cs))"

text \<open>
  Both constructors first bring the text to ASCII: a character below 127 stays, any
  other white-space character becomes a blank, a decimal digit of another script becomes
  the ASCII digit of its value, and at the first character that is none of these the
  text ends with a \<open>?\<close>.  Then ASCII white space is dropped at both ends.
\<close>

fun to_ascii :: "ucd \<Rightarrow> pystr \<Rightarrow> pystr" where
  "to_ascii U [] = []"
| "to_ascii U (c # cs) =
     (if c < 127 then c # to_ascii U cs
      else if is_space c then 32 # to_ascii U cs
      else case digit_value U c of
             Some v \<Rightarrow> (48 + v) # to_ascii U cs
           | None \<Rightarrow> [63])"

definition is_c_space :: "int \<Rightarrow> bool" where
  "is_c_space c = (c = 32 \<or> (9 \<le> c \<and> c \<le> 13))"

definition c_strip :: "pystr \<Rightarrow> pystr" where
  "c_strip s = rev (dropWhile is_c_space (rev (dropWhile is_c_space s)))"

text \<open>
  \<open>int(s)\<close> in base 10: \<open>None\<close> is \<open>ValueError\<close>, which is also raised for a
  numeral of more than 4300 digits (the interpreter's limit on the conversion between
  \<open>str\<close> and \<open>int\<close>; leading zeros count, underscores do not).
\<close>

definition max_str_digits :: int where
  "max_str_digits = 4300"

definition py_int :: "ucd \<Rightarrow> pystr \<Rightarrow> int option" where
  "py_int U s =
     (let t = c_strip (to_ascii U s);
          neg = (t \<noteq> [] \<and> hd t = 45);
          u = (if t \<noteq> [] \<and> (hd t = 45 \<or> hd t = 43) then tl t else t)
      in case strip_us 0 u of
           None \<Rightarrow> None
         | Some ds \<Rightarrow>
             if ds \<noteq> [] \<and> list_all is_ascii_digit ds \<and> int (length ds) \<le> max_str_digits
             then Some (if neg then - digits_val ds else digits_val ds)
             else None)"

subsection \<open>Binary floating point\<close>

text \<open>
  A Python \<open>float\<close> is an IEEE-754 binary64 number.  A finite one is kept as its sign
  bit (\<open>True\<close> for negative, so that \<open>-0.0\<close> is \<open>Finite True 0\<close>) and the exact
  rational magnitude it denotes.
\<close>

datatype pyfloat = Finite bool rat | Infinity bool | NaN

definition pow2 :: "int \<Rightarrow> rat" where
  "pow2 k = (if 0 \<le> k then 2 ^ nat k else 1 / 2 ^ nat (- k))"

definition pow10 :: "int \<Rightarrow> rat" where
  "pow10 k = (if 0 \<le> k then 10 ^ nat k else 1 / 10 ^ nat (- k))"

text \<open>\<open>ilog2 q\<close> is the integer \<open>e\<close> with \<open>2^e \<le> q < 2^(e+1)\<close>, for \<open>q > 0\<close>.\<close>

definition ilog2 :: "rat \<Rightarrow> int" where
  "ilog2 q =
     (let (a, b) = quotient_of q; d = bitlen a - bitlen b
      in if pow2 d \<le> q then d else d - 1)"

text \<open>Rounding to the nearest integer, a tie going to the even one.\<close>

definition round_half_even :: "rat \<Rightarrow> int" where
  "round_half_even q =
     (let f = \<lfloor>q\<rfloor>; r = q - of_int f
      in if r < 1 / 2 then f else if 1 / 2 < r then f + 1
         else if even f then f else f + 1)"

text \<open>
  The binary64 number nearest to a magnitude \<open>q \<ge> 0\<close> (ties to even): 53 significant
  bits, the exponent \<open>e\<close> of the leading bit at least \<open>-1022\<close> (below that the spacing
  stays \<open>2^-1074\<close>).  The result is \<open>n * 2^(e-52)\<close> with \<open>n \<le> 2^53\<close>; it is \<open>None\<close>
  (overflow) when it would reach \<open>2^1024\<close>, that is when \<open>e > 1023\<close>, or \<open>e = 1023\<close>
  and \<open>n\<close> is rounded up to \<open>2^53\<close>.
\<close>

definition b64_round :: "rat \<Rightarrow> rat option" where
  "b64_round q =
     (if q = 0 then Some 0
      else let e = max (ilog2 q) (- 1022);
               u = pow2 (e - 52);
               n = round_half_even (q / u)
           in if 1023 < e \<or> (e = 1023 \<and> n = 2 ^ 53) then None else Some (of_int n * u))"

definition mk_float :: "bool \<Rightarrow> rat \<Rightarrow> pyfloat" where
  "mk_float neg q = (case b64_round q of None \<Rightarrow> Infinity neg | Some r \<Rightarrow> Finite neg r)"

text \<open>
  The decimal literal of \<open>float(s)\<close> after the sign: digits, an optional point and
  fraction digits (a digit on at least one side), an optional exponent \<open>e\<close> or \<open>E\<close>
  with optional sign and at least one digit.  The result is the exact value.
\<close>

definition float_exponent :: "pystr \<Rightarrow> int option" where
  "float_exponent s =
     (case s of
        [] \<Rightarrow> Some 0
      | c # t \<Rightarrow>
          if c = 101 \<or> c = 69 then
            (let neg = (t \<noteq> [] \<and> hd t = 45);
                 ds = (if t \<noteq> [] \<and> (hd t = 45 \<or> hd t = 43) then tl t else t)
             in if ds \<noteq> [] \<and> list_all is_ascii_digit ds
                then Some (if neg then - digits_val ds else digits_val ds)
                else None)
          else None)"

definition float_literal :: "pystr \<Rightarrow> rat option" where
  "float_literal s =
     (let ip = takeWhile is_ascii_digit s;
          r1 = dropWhile is_ascii_digit s;
          fp = (case r1 of [] \<Rightarrow> [] | c # t \<Rightarrow> if c = 46 then takeWhile is_ascii_digit t else []);
          r2 = (case r1 of [] \<Rightarrow> [] | c # t \<Rightarrow> if c = 46 then dropWhile is_ascii_digit t else r1)
      in if ip = [] \<and> fp = [] then None
         else case float_exponent r2 of
                None \<Rightarrow> None
              | Some ex \<Rightarrow>
                  Some (of_int (digits_val (ip @ fp)) * pow10 (ex - int (length fp))))"

text \<open>
  \<open>float(s)\<close>: \<open>None\<close> is \<open>ValueError\<close>.  The words \<open>inf\<close>, \<open>infinity\<close> and
  \<open>nan\<close> are read in any mix of ASCII upper and lower case.  Out-of-range literals
  give infinity.
\<close>

definition py_float :: "ucd \<Rightarrow> pystr \<Rightarrow> pyfloat option" where
  "py_float U s =
     (case strip_us 0 (c_strip (to_ascii U s)) of
        None \<Rightarrow> None
      | Some t \<Rightarrow>
          (let neg = (t \<noteq> [] \<and> hd t = 45);
               u = (if t \<noteq> [] \<and> (hd t = 45 \<or> hd t = 43) then tl t else t);
               w = map lower_chr u
           in if w = asc ''inf'' \<or> w = asc ''infinity'' then Some (Infinity neg)
              else if w = asc ''nan'' then Some NaN
              else map_option (mk_float neg) (float_literal u)))"

text \<open>\<open>f"{x:.2f}"\<close>: the exact value rounded to two decimals, ties to even.\<close>

definition two_digits :: "int \<Rightarrow> pystr" where
  "two_digits n = [48 + n div 10, 48 + n mod 10]"

definition fmt2 :: "pyfloat \<Rightarrow> pystr" where
  "fmt2 x =
     (case x of
        NaN \<Rightarrow> asc ''nan''
      | Infinity neg \<Rightarrow> (if neg then asc ''-inf'' else asc ''inf'')
      | Finite neg q \<Rightarrow>
          (let n = round_half_even (q * 100)
           in (if neg then [45] else []) @ str_nat (n div 100) @ [46] @ two_digits (n mod 100)))"

section \<open>Price normalisation\<close>

text \<open>
  \<open>normalize_price\<close>: the currency signs \<open>$\<close> (36), euro (8364), pound (163), yen
  (165) and all white space are removed, then the commas; a leading minus is split off
  and put back before \<open>float\<close> reads the text.
\<close>

definition normalize_price :: "ucd \<Rightarrow> pystr \<Rightarrow> pystr" where
  "normalize_price U price_str =
     (if price_str = [] then asc ''0.00''
      else let cleaned = filter (\<lambda>c. \<not> (c \<in> set [36, 8364, 163, 165] \<or> is_space c)) price_str;
               cleaned = filter (\<lambda>c. c \<noteq> 44) cleaned;
               sign = (if cleaned \<noteq> [] \<and> hd cleaned = 45 then [45] else []);
               cleaned = (if cleaned \<noteq> [] \<and> hd cleaned = 45 then tl cleaned else cleaned)
           in case py_float U (sign @ cleaned) of
                Some x \<Rightarrow> fmt2 x
              | None \<Rightarrow> asc ''0.00'')"

section \<open>Regular expressions\<close>

text \<open>
  The patterns of the program are kept as terms of \<open>rx\<close> and run by one matcher with
  Python's backtracking order.  A repetition only ever stands on a character class in
  these patterns, so \<open>Star\<close> and \<open>Plus\<close> take a class.  \<open>Grp k r\<close> is the capturing
  group number \<open>k\<close>.  \<open>Bol\<close> is \<open>^\<close>, \<open>Eol\<close> is \<open>$\<close> (the end of the text, or just
  before a final newline), \<open>Wb cls\<close> is \<open>\b\<close> for the word characters \<open>cls\<close>.
\<close>

datatype rx =
    Chr "int \<Rightarrow> bool"
  | Star "int \<Rightarrow> bool"
  | Plus "int \<Rightarrow> bool"
  | Seq rx rx
  | Alt rx rx
  | Opt rx
  | Grp nat rx
  | Bol
  | Eol
  | Wb "int \<Rightarrow> bool"
  | Eps

type_synonym caps = "(nat \<times> nat \<times> nat) list"

definition run_len :: "(int \<Rightarrow> bool) \<Rightarrow> pystr \<Rightarrow> nat \<Rightarrow> nat" where
  "run_len cls s i = length (takeWhile cls (drop i s))"

definition word_at :: "(int \<Rightarrow> bool) \<Rightarrow> pystr \<Rightarrow> nat \<Rightarrow> bool" where
  "word_at cls s i = (i < length s \<and> cls (s ! i))"

text \<open>
  \<open>ends r s (i, c)\<close>: every position at which a match of \<open>r\<close> begun at \<open>i\<close> can end,
  with the groups captured on the way, in the order in which a backtracking matcher
  tries them: a greedy repetition longest first, an option taken before it is skipped,
  the left alternative before the right one.  The head of the list is the match.
\<close>

fun ends :: "rx \<Rightarrow> pystr \<Rightarrow> nat \<times> caps \<Rightarrow> (nat \<times> caps) list" where
  "ends (Chr cls) s (i, c) = (if i < length s \<and> cls (s ! i) then [(Suc i, c)] else [])"
| "ends (Star cls) s (i, c) = map (\<lambda>k. (i + k, c)) (rev [0 ..< Suc (run_len cls s i)])"
| "ends (Plus cls) s (i, c) = map (\<lambda>k. (i + k, c)) (rev [1 ..< Suc (run_len cls s i)])"
| "ends (Seq a b) s (i, c) = concat (map (ends b s) (ends a s (i, c)))"
| "ends (Alt a b) s (i, c) = ends a s (i, c) @ ends b s (i, c)"
| "ends (Opt a) s (i, c) = ends a s (i, c) @ [(i, c)]"
| "ends (Grp k a) s (i, c) = map (\<lambda>(e, c'). (e, (k, i, e) # c')) (ends a s (i, c))"
| "ends Bol s (i, c) = (if i = 0 then [(i, c)] else [])"
| "ends Eol s (i, c) =
     (if i = length s \<or> (Suc i = length s \<and> s ! i = 10) then [(i, c)] else [])"
| "ends (Wb cls) s (i, c) =
     (if (0 < i \<and> word_at cls s (i - 1)) \<noteq> word_at cls s i then [(i, c)] else [])"
| "ends Eps s (i, c) = [(i, c)]"

text \<open>A match object: start, end and the captured groups.\<close>

record rmatch =
  m_start :: nat
  m_end :: nat
  m_caps :: caps

definition match_at :: "rx \<Rightarrow> pystr \<Rightarrow> nat \<Rightarrow> rmatch option" where
  "match_at r s i =
     (case ends r s (i, []) of
        [] \<Rightarrow> None
      | (e, c) # _ \<Rightarrow> Some \<lparr>m_start = i, m_end = e, m_caps = c\<rparr>)"

text \<open>\<open>re.match(r, s)\<close>: a match at the start of the text.\<close>

definition re_match :: "rx \<Rightarrow> pystr \<Rightarrow> rmatch option" where
  "re_match r s = match_at r s 0"

text \<open>\<open>search_from r s i\<close>: the leftmost match that starts at \<open>i\<close> or later.\<close>

function search_from :: "rx \<Rightarrow> pystr \<Rightarrow> nat \<Rightarrow> rmatch option" where
  "search_from r s i =
     (if length s < i then None
      else case match_at r s i of
             Some m \<Rightarrow> Some m
           | None \<Rightarrow> search_from r s (Suc i))"
  by pat_completeness auto
termination
  by (relation "measure (\<lambda>(r, s, i). Suc (length s) - i)") auto

declare search_from.simps [simp del]

definition re_search :: "rx \<Rightarrow> pystr \<Rightarrow> rmatch option" where
  "re_search r s = search_from r s 0"

definition m_text :: "pystr \<Rightarrow> rmatch \<Rightarrow> pystr" where
  "m_text s m = take (m_end m - m_start m) (drop (m_start m) s)"

text \<open>\<open>m.group(k)\<close> for a group that took part in the match.\<close>

definition m_group :: "pystr \<Rightarrow> rmatch \<Rightarrow> nat \<Rightarrow> pystr" where
  "m_group s m k =
     (case map_of (m_caps m) k of
        None \<Rightarrow> []
      | Some (a, b) \<Rightarrow> take (b - a) (drop a s))"

text \<open>
  The successive non-overlapping matches of \<open>re.findall\<close> and \<open>re.sub\<close>, left to
  right.  After a match the scan goes on at its end (one further after an empty match;
  no pattern given to \<open>findall\<close> or to an unbounded \<open>sub\<close> here matches the empty
  string).  \<open>fuel\<close> bounds the number of matches; \<open>length s + 1\<close> is always enough.
\<close>

fun matches_from :: "nat \<Rightarrow> rx \<Rightarrow> pystr \<Rightarrow> nat \<Rightarrow> rmatch list" where
  "matches_from 0 r s i = []"
| "matches_from (Suc fuel) r s i =
     (case search_from r s i of
        None \<Rightarrow> []
      | Some m \<Rightarrow>
          m # matches_from fuel r s (if m_start m < m_end m then m_end m else Suc (m_end m)))"

definition finditer :: "rx \<Rightarrow> pystr \<Rightarrow> rmatch list" where
  "finditer r s = matches_from (Suc (length s)) r s 0"

text \<open>\<open>re.findall(r, s)\<close> for a pattern without groups: the matched texts.\<close>

definition findall :: "rx \<Rightarrow> pystr \<Rightarrow> pystr list" where
  "findall r s = map (m_text s) (finditer r s)"

text \<open>\<open>re.sub(r, '', s)\<close> and \<open>re.sub(r, '', s, count=1)\<close>: matches deleted.\<close>

fun delete_spans :: "pystr \<Rightarrow> nat \<Rightarrow> rmatch list \<Rightarrow> pystr" where
  "delete_spans s i [] = drop i s"
| "delete_spans s i (m # ms) = take (m_start m - i) (drop i s) @ delete_spans s (m_end m) ms"

definition sub_all :: "rx \<Rightarrow> pystr \<Rightarrow> pystr" where
  "sub_all r s = delete_spans s 0 (finditer r s)"

definition sub_first :: "rx \<Rightarrow> pystr \<Rightarrow> pystr" where
  "sub_first r s = delete_spans s 0 (take 1 (finditer r s))"

text \<open>Building patterns: a sequence, one character, a literal text (\<open>re.escape\<close>).\<close>

definition seq :: "rx list \<Rightarrow> rx" where
  "seq rs = foldr Seq rs Eps"

definition ch :: "char \<Rightarrow> rx" where
  "ch x = Chr (\<lambda>c. c = of_char x)"

text \<open>
  A pattern character \<open>x\<close> under \<open>re.IGNORECASE\<close>: an ASCII character that is no
  letter matches itself only, an ASCII letter matches its two ASCII cases, and whether a
  character from 128 on is involved in a match is a matter of the database.
\<close>

definition ignorecase_eq :: "ucd \<Rightarrow> int \<Rightarrow> int \<Rightarrow> bool" where
  "ignorecase_eq U x c =
     (if x < 128 \<and> \<not> is_ascii_alpha x then c = x
      else if x < 128 \<and> c < 128 then lower_chr c = lower_chr x
      else ucd_ignorecase U x c)"

definition ich :: "ucd \<Rightarrow> int \<Rightarrow> rx" where
  "ich U x = Chr (ignorecase_eq U x)"

definition lit :: "pystr \<Rightarrow> rx" where
  "lit t = seq (map (\<lambda>x. Chr (\<lambda>c. c = x)) t)"

definition ilit :: "ucd \<Rightarrow> pystr \<Rightarrow> rx" where
  "ilit U t = seq (map (ich U) t)"

definition digit_or_comma :: "ucd \<Rightarrow> int \<Rightarrow> bool" where
  "digit_or_comma U c = (is_digit U c \<or> c = 44)"

section \<open>Price scanner\<close>

text \<open>
  \<open>extract_prices_from_line\<close>: the two patterns \<open>-?\$?\s*[\d,]+\.\d{2}\<close> and
  \<open>-?\$?\s*[\d,]+\<close>, each run over the whole line by \<open>findall\<close>; the matches of the
  first, then the matches of the second, those that are not blank, normalised.
\<close>

definition price_pattern_1 :: "ucd \<Rightarrow> rx" where
  "price_pattern_1 U =
     seq [Opt (ch CHR ''-''), Opt (ch CHR ''$''), Star is_space, Plus (digit_or_comma U),
          ch CHR ''.'', Chr (is_digit U), Chr (is_digit U)]"

definition price_pattern_2 :: "ucd \<Rightarrow> rx" where
  "price_pattern_2 U =
     seq [Opt (ch CHR ''-''), Opt (ch CHR ''$''), Star is_space, Plus (digit_or_comma U)]"

definition extract_prices_from_line :: "ucd \<Rightarrow> pystr \<Rightarrow> pystr list" where
  "extract_prices_from_line U line =
     (let prices = findall (price_pattern_1 U) line @ findall (price_pattern_2 U) line
      in map (normalize_price U) (filter (\<lambda>p. strip p \<noteq> []) prices))"


section \<open>Line items and quote groups\<close>

record item =
  description :: pystr
  quantity :: pystr
  unitPrice :: pystr
  cost :: pystr

record quote_group =
  group_quantity :: pystr
  group_unitPrice :: pystr
  totalPrice :: pystr
  lineItems :: "item list"

text \<open>
  The rejection test shared by the three strategies:
  \<open>description and quantity != "0" and unit_price != "0.00" and cost != "0.00"\<close>.
\<close>

definition accepted :: "pystr \<Rightarrow> pystr \<Rightarrow> pystr \<Rightarrow> pystr \<Rightarrow> bool" where
  "accepted d q u c = (d \<noteq> [] \<and> q \<noteq> asc ''0'' \<and> u \<noteq> asc ''0.00'' \<and> c \<noteq> asc ''0.00'')"

text \<open>
  \<open>quote_groups = defaultdict(list)\<close> and \<open>quote_groups[quantity].append(item)\<close>: the
  keys keep the order in which they were first used.
\<close>

fun group_append :: "pystr \<Rightarrow> item \<Rightarrow> (pystr \<times> item list) list \<Rightarrow> (pystr \<times> item list) list" where
  "group_append k it [] = [(k, [it])]"
| "group_append k it ((k', its) # rest) =
     (if k = k' then (k', its @ [it]) # rest else (k', its) # group_append k it rest)"

subsection \<open>Arithmetic of the totals\<close>

text \<open>
  \<open>x + y\<close> on floats: the exact sum rounded to binary64.  A zero sum is \<open>-0.0\<close> only
  when both operands are negative (zeros).
\<close>

definition signed :: "bool \<Rightarrow> rat \<Rightarrow> rat" where
  "signed neg q = (if neg then - q else q)"

definition float_add :: "pyfloat \<Rightarrow> pyfloat \<Rightarrow> pyfloat" where
  "float_add x y =
     (case (x, y) of
        (NaN, _) \<Rightarrow> NaN
      | (_, NaN) \<Rightarrow> NaN
      | (Infinity a, Infinity b) \<Rightarrow> (if a = b then Infinity a else NaN)
      | (Infinity a, Finite _ _) \<Rightarrow> Infinity a
      | (Finite _ _, Infinity b) \<Rightarrow> Infinity b
      | (Finite a p, Finite b q) \<Rightarrow>
          (let v = signed a p + signed b q
           in if v = 0 then Finite (a \<and> b) 0 else mk_float (v < 0) \<bar>v\<bar>))"

text \<open>
  \<open>sum(float(item['cost']) for item in items)\<close>: the sum starts from the integer 0 and
  adds the floats from left to right, each addition rounded (the summation of CPython
  up to 3.11; later versions carry a correction term through sums of three or more
  floats).  \<open>float\<close> of a cost that is no float literal raises \<open>ValueError\<close>.
\<close>

fun sum_costs :: "ucd \<Rightarrow> pyfloat \<Rightarrow> item list \<Rightarrow> exn + pyfloat" where
  "sum_costs U acc [] = Inr acc"
| "sum_costs U acc (it # its) =
     (case py_float U (cost it) of
        None \<Rightarrow> Inl ValueError
      | Some x \<Rightarrow> sum_costs U (float_add acc x) its)"

text \<open>\<open>sum(int(item['quantity']) for item in items)\<close>.\<close>

fun sum_quantities :: "ucd \<Rightarrow> int \<Rightarrow> item list \<Rightarrow> exn + int" where
  "sum_quantities U acc [] = Inr acc"
| "sum_quantities U acc (it # its) =
     (case py_int U (quantity it) of
        None \<Rightarrow> Inl ValueError
      | Some n \<Rightarrow> sum_quantities U (acc + n) its)"

text \<open>
  \<open>total_cost / total_qty\<close> for \<open>total_qty > 0\<close>: the integer is converted to binary64
  (\<open>OverflowError\<close> when it is too large), then the quotient is rounded.
\<close>

definition float_div_int :: "pyfloat \<Rightarrow> int \<Rightarrow> exn + pyfloat" where
  "float_div_int x n =
     (case b64_round (of_int n) of
        None \<Rightarrow> Inl OverflowError
      | Some d \<Rightarrow>
          Inr (case x of
                 NaN \<Rightarrow> NaN
               | Infinity a \<Rightarrow> Infinity a
               | Finite a p \<Rightarrow> mk_float a (p / d)))"

text \<open>
  One group from its items: the totals, the average
  \<open>total_cost / total_qty if total_qty > 0 else 0.0\<close>, and the four fields.  The
  program has this computation three times (\<open>format_quote_groups\<close>, and the end of
  \<open>parse_sematool_format\<close> and of \<open>parse_thirtytwo_machine_format\<close>).
\<close>

definition make_group :: "ucd \<Rightarrow> item list \<Rightarrow> exn + quote_group" where
  "make_group U items =
     (case sum_costs U (Finite False 0) items of
        Inl e \<Rightarrow> Inl e
      | Inr total_cost \<Rightarrow>
          (case sum_quantities U 0 items of
             Inl e \<Rightarrow> Inl e
           | Inr total_qty \<Rightarrow>
               (case (if 0 < total_qty then float_div_int total_cost total_qty
                      else Inr (Finite False 0)) of
                  Inl e \<Rightarrow> Inl e
                | Inr avg_unit_price \<Rightarrow>
                    Inr \<lparr>group_quantity = str_int total_qty,
                         group_unitPrice = fmt2 avg_unit_price,
                         totalPrice = fmt2 total_cost,
                         lineItems = items\<rparr>)))"

text \<open>Running a list of fallible steps; the first exception ends the run.\<close>

fun collect :: "(exn + 'a) list \<Rightarrow> exn + 'a list" where
  "collect [] = Inr []"
| "collect (x # xs) =
     (case x of
        Inl e \<Rightarrow> Inl e
      | Inr v \<Rightarrow> (case collect xs of Inl e \<Rightarrow> Inl e | Inr vs \<Rightarrow> Inr (v # vs)))"

text \<open>
  \<open>format_quote_groups\<close>: the keys sorted by \<open>int\<close> (a stable sort), one group per key.
\<close>

definition format_quote_groups :: "ucd \<Rightarrow> (pystr \<times> item list) list \<Rightarrow> exn + quote_group list" where
  "format_quote_groups U quote_groups =
     (case those (map (\<lambda>(k, its). py_int U k) quote_groups) of
        None \<Rightarrow> Inl ValueError
      | Some keys \<Rightarrow>
          collect (map (\<lambda>(n, k, its). make_group U its)
                       (sort_key fst (zip keys quote_groups))))"

section \<open>Strategy A: parse_vtn_format\<close>

definition vtn_keywords :: "pystr list" where
  "vtn_keywords = map asc [''TOTAL'', ''SUBTOTAL'', ''MOQ'', ''ITEM CODE'', ''DESCRIPTION'',
                           ''UNIT PRICE'', ''AMOUNT'', ''QUOTE'']"

text \<open>\<open>^\s*(\d+)\s+\<close>\<close>

definition qty_pattern :: "ucd \<Rightarrow> rx" where
  "qty_pattern U = seq [Bol, Star is_space, Grp 1 (Plus (is_digit U)), Plus is_space]"

text \<open>\<open>-?\$?[\d,]+\.?\d*\<close>\<close>

definition raw_price_pattern :: "ucd \<Rightarrow> rx" where
  "raw_price_pattern U =
     seq [Opt (ch CHR ''-''), Opt (ch CHR ''$''), Plus (digit_or_comma U), Opt (ch CHR ''.''),
          Star (is_digit U)]"

text \<open>\<open>^[A-Z0-9-]+(?:\sREV\s[A-Z0-9]+)?(?:\s[A-Z0-9-]+)?\s+\<close>\<close>

definition upper_alnum :: "int \<Rightarrow> bool" where
  "upper_alnum c = ((65 \<le> c \<and> c \<le> 90) \<or> is_ascii_digit c)"

definition code_chr :: "int \<Rightarrow> bool" where
  "code_chr c = (upper_alnum c \<or> c = 45)"

definition item_code_pattern :: rx where
  "item_code_pattern =
     seq [Bol, Plus code_chr,
          Opt (seq [Chr is_space, ch CHR ''R'', ch CHR ''E'', ch CHR ''V'', Chr is_space,
                    Plus upper_alnum]),
          Opt (seq [Chr is_space, Plus code_chr]),
          Plus is_space]"

text \<open>
  The loop \<open>for p_val in reversed(line_prices)\<close> that is meant to cut the prices off
  the right end of the line.  Both of its branches call \<open>re.rsplit\<close>, which the module
  \<open>re\<close> does not have: reaching either raises \<open>AttributeError\<close>.  As long as neither is
  reached \<open>temp_line\<close> stays as it is.
\<close>

fun remove_prices :: "ucd \<Rightarrow> pystr list \<Rightarrow> pystr \<Rightarrow> exn + pystr" where
  "remove_prices U [] temp_line = Inr temp_line"
| "remove_prices U (p_val # rest) temp_line =
     (let raw_prices_in_line = findall (raw_price_pattern U) temp_line
      in if raw_prices_in_line \<noteq> [] then
           if normalize_price U (last raw_prices_in_line) = p_val then Inl AttributeError
           else if 2 \<le> length raw_prices_in_line
                   \<and> normalize_price U (raw_prices_in_line ! (length raw_prices_in_line - 2)) = p_val
                then Inl AttributeError
           else remove_prices U rest temp_line
         else remove_prices U rest temp_line)"

text \<open>
  The body of the loop over the lines.  \<open>Inr None\<close>: the line adds nothing
  (\<open>continue\<close>, or the item is rejected); \<open>Inr (Some it)\<close>: \<open>it\<close> is appended;
  \<open>Inl e\<close>: \<open>e\<close> is raised inside the \<open>try\<close>.
\<close>

definition vtn_line :: "ucd \<Rightarrow> pystr \<Rightarrow> exn + item option" where
  "vtn_line U raw_line =
     (let line = strip raw_line
      in if line = [] \<or> upper U line \<in> set vtn_keywords then Inr None
         else let line_prices = extract_prices_from_line U line
              in if length line_prices < 2 then Inr None
                 else let cost = last line_prices;
                          unit_price = line_prices ! (length line_prices - 2)
                      in case re_match (qty_pattern U) line of
                           None \<Rightarrow> Inr None
                         | Some qty_match \<Rightarrow>
                             (let qty_candidate = m_group line qty_match 1
                              in case py_int U qty_candidate of
                                   None \<Rightarrow> Inl ValueError
                                 | Some n \<Rightarrow>
                                     (let quantity = (if n \<le> 10000 then qty_candidate else asc ''1'');
                                          temp_line = strip (drop (m_end qty_match) line)
                                      in case remove_prices U (rev line_prices) temp_line of
                                           Inl e \<Rightarrow> Inl e
                                         | Inr temp_line \<Rightarrow>
                                             (let description = strip temp_line;
                                                  description = strip (sub_all item_code_pattern description)
                                              in if accepted description quantity unit_price cost
                                                 then Inr (Some \<lparr>description = description,
                                                                  quantity = quantity,
                                                                  unitPrice = unit_price,
                                                                  cost = cost\<rparr>)
                                                 else Inr None))))"

text \<open>\<open>except Exception: continue\<close>: a line that raises adds nothing.\<close>

definition vtn_step :: "ucd \<Rightarrow> (pystr \<times> item list) list \<Rightarrow> pystr \<Rightarrow> (pystr \<times> item list) list" where
  "vtn_step U quote_groups line =
     (case vtn_line U line of
        Inr (Some it) \<Rightarrow> group_append (quantity it) it quote_groups
      | _ \<Rightarrow> quote_groups)"

definition parse_vtn_format :: "ucd \<Rightarrow> pystr list \<Rightarrow> exn + quote_group list" where
  "parse_vtn_format U lines = format_quote_groups U (foldl (vtn_step U) [] lines)"


section \<open>Strategy B: parse_sematool_format\<close>

definition sematool_headers :: "pystr list" where
  "sematool_headers = map asc [''item'', ''description'', ''quantity'', ''price'', ''amount'']"

text \<open>
  The header test of the first loop:
  \<open>any(header in line.lower() for header in [...])\<close>.
\<close>

definition is_sematool_header :: "ucd \<Rightarrow> pystr \<Rightarrow> bool" where
  "is_sematool_header U line = list_ex (\<lambda>header. contains (lower U line) header) sematool_headers"

text \<open>\<open>p_val.replace('.00', '')\<close>: every occurrence of \<open>.00\<close> is taken out.\<close>

function del_dot00 :: "pystr \<Rightarrow> pystr" where
  "del_dot00 [] = []"
| "del_dot00 (c # cs) =
     (if take 3 (c # cs) = asc ''.00'' then del_dot00 (drop 2 cs) else c # del_dot00 cs)"
  by pat_completeness auto
termination
  by (relation "measure length") auto

text \<open>\<open>\b(\d+)\b\<close>, \<open>^\s*\d+\s*\<close> and \<open>\s*/EA|\s*/EACH\<close> (the last with \<open>re.IGNORECASE\<close>).\<close>

definition number_pattern :: "ucd \<Rightarrow> rx" where
  "number_pattern U = seq [Wb (is_word U), Plus (is_digit U), Wb (is_word U)]"

definition leading_number_pattern :: "ucd \<Rightarrow> rx" where
  "leading_number_pattern U = seq [Bol, Star is_space, Plus (is_digit U), Star is_space]"

definition unit_marker_pattern :: "ucd \<Rightarrow> rx" where
  "unit_marker_pattern U =
     Alt (seq [Star is_space, ch CHR ''/'', ich U 69, ich U 65])
         (seq [Star is_space, ch CHR ''/'', ich U 69, ich U 65, ich U 67, ich U 72])"

text \<open>
  The body of the row loop, for a stripped, non-empty row that is not the total line.
  The only call that can raise inside the \<open>try\<close> is \<open>int(qty_candidate)\<close>.
\<close>

definition sematool_line :: "ucd \<Rightarrow> pystr \<Rightarrow> exn + item option" where
  "sematool_line U line =
     (let line_prices = extract_prices_from_line U line
      in if length line_prices < 2 then Inr None
         else let cost = last line_prices;
                  unit_price = line_prices ! (length line_prices - 2);
                  temp_line_for_qty =
                    foldl (\<lambda>t p_val. sub_first (lit (del_dot00 p_val)) t) line line_prices;
                  potential_quantities = findall (number_pattern U) temp_line_for_qty
              in case (if potential_quantities \<noteq> []
                       then (case py_int U (last potential_quantities) of
                               None \<Rightarrow> Inl ValueError
                             | Some n \<Rightarrow>
                                 Inr (if n \<le> 10000 then last potential_quantities else asc ''1''))
                       else Inr (asc ''1'')) of
                   Inl e \<Rightarrow> Inl e
                 | Inr qty \<Rightarrow>
                     (let quantity = qty;
                          temp_line =
                            foldl (\<lambda>t p_val. sub_first (ilit U (del_dot00 p_val)) t) line line_prices;
                          temp_line = sub_first (seq [Wb (is_word U), lit quantity, Wb (is_word U)]) temp_line;
                          temp_line = sub_first (leading_number_pattern U) temp_line;
                          description = strip temp_line;
                          description = strip (sub_all (unit_marker_pattern U) description)
                      in if accepted description quantity unit_price cost
                         then Inr (Some \<lparr>description = description, quantity = quantity,
                                          unitPrice = unit_price, cost = cost\<rparr>)
                         else Inr None))"

text \<open>
  The second loop, over the lines after the header: blank lines are passed over, a line
  with \<open>total:\<close> ends the loop, a row that raises adds nothing.
\<close>

fun sematool_rows :: "ucd \<Rightarrow> pystr list \<Rightarrow> item list" where
  "sematool_rows U [] = []"
| "sematool_rows U (l # ls) =
     (let line = strip l
      in if line = [] then sematool_rows U ls
         else if contains (lower U line) (asc ''total:'') then []
         else case sematool_line U line of
                Inr (Some it) \<Rightarrow> it # sematool_rows U ls
              | _ \<Rightarrow> sematool_rows U ls)"

text \<open>All accepted rows go into one group; no rows, no group.\<close>

definition consolidated :: "ucd \<Rightarrow> item list \<Rightarrow> exn + quote_group list" where
  "consolidated U items =
     (if items = [] then Inr []
      else case make_group U items of Inl e \<Rightarrow> Inl e | Inr g \<Rightarrow> Inr [g])"

definition parse_sematool_format :: "ucd \<Rightarrow> pystr list \<Rightarrow> exn + quote_group list" where
  "parse_sematool_format U lines =
     (case dropWhile (\<lambda>l. \<not> is_sematool_header U l) lines of
        [] \<Rightarrow> Inr []
      | header # rows \<Rightarrow> consolidated U (sematool_rows U rows))"

section \<open>Strategy C: parse_thirtytwo_machine_format\<close>

definition is_thirtytwo_header :: "ucd \<Rightarrow> pystr \<Rightarrow> bool" where
  "is_thirtytwo_header U line =
     list_all (\<lambda>h. contains (lower U line) h) (map asc [''description'', ''qty'', ''rate'', ''total''])"

text \<open>
  \<open>(\d+)\s*"?,\s*"?([\-]?\$?[\d,]+\.?\d*)"?,\s*"?([\-]?\$?[\d,]+\.?\d*)"?\s*$\<close>; the
  double quote is code point 34.
\<close>

definition chi :: "int \<Rightarrow> rx" where
  "chi x = Chr (\<lambda>c. c = x)"

definition line_item_end_pattern :: "ucd \<Rightarrow> rx" where
  "line_item_end_pattern U =
     seq [Grp 1 (Plus (is_digit U)), Star is_space, Opt (chi 34), ch CHR '','', Star is_space,
          Opt (chi 34), Grp 2 (raw_price_pattern U), Opt (chi 34), ch CHR '','', Star is_space,
          Opt (chi 34), Grp 3 (raw_price_pattern U), Opt (chi 34), Star is_space, Eol]"

text \<open>\<open>[\$]?[\d,]+\.\d{2}\<close> and \<open>[\$]?[\d,]+\<close>, the price shapes of the total line.\<close>

definition total_price_pattern_1 :: "ucd \<Rightarrow> rx" where
  "total_price_pattern_1 U =
     seq [Opt (ch CHR ''$''), Plus (digit_or_comma U), ch CHR ''.'', Chr (is_digit U), Chr (is_digit U)]"

definition total_price_pattern_2 :: "ucd \<Rightarrow> rx" where
  "total_price_pattern_2 U = seq [Opt (ch CHR ''$''), Plus (digit_or_comma U)]"

text \<open>\<open>^"|"$\<close> and \<open>,\s*$\<close>\<close>

definition outer_quote_pattern :: rx where
  "outer_quote_pattern = Alt (seq [Bol, chi 34]) (seq [chi 34, Eol])"

definition trailing_comma_pattern :: rx where
  "trailing_comma_pattern = seq [ch CHR '','', Star is_space, Eol]"

text \<open>
  The loop over the lines after the header, with its two variables: the groups built so
  far and \<open>current_item_description_lines\<close>.  This loop has no \<open>try\<close>, and nothing in
  it raises.
\<close>

fun thirtytwo_rows ::
  "ucd \<Rightarrow> (pystr \<times> item list) list \<Rightarrow> pystr list \<Rightarrow> pystr list \<Rightarrow> (pystr \<times> item list) list" where
  "thirtytwo_rows U quote_groups buf [] = quote_groups"
| "thirtytwo_rows U quote_groups buf (l # ls) =
     (let line = strip l
      in if line = [] then thirtytwo_rows U quote_groups buf ls
         else if contains (lower U line) (asc ''total'')
                 \<and> (re_search (total_price_pattern_1 U) line \<noteq> None
                      \<or> re_search (total_price_pattern_2 U) line \<noteq> None)
              then quote_groups
         else case re_search (line_item_end_pattern U) line of
                None \<Rightarrow> thirtytwo_rows U quote_groups (buf @ [line]) ls
              | Some m \<Rightarrow>
                  (let quantity = m_group line m 1;
                       unit_price = normalize_price U (m_group line m 2);
                       cost = normalize_price U (m_group line m 3);
                       description_on_current_line = strip (take (m_start m) line);
                       buf = (if description_on_current_line \<noteq> []
                              then buf @ [description_on_current_line] else buf);
                       description = strip (join (asc '' '') buf);
                       description = strip (sub_all outer_quote_pattern description);
                       description = strip (sub_all trailing_comma_pattern description)
                   in thirtytwo_rows U
                        (if accepted description quantity unit_price cost
                         then group_append quantity
                                \<lparr>description = description, quantity = quantity,
                                 unitPrice = unit_price, cost = cost\<rparr> quote_groups
                         else quote_groups)
                        [] ls))"

text \<open>
  \<open>all_items\<close> is the concatenation of the groups' lists in the order of the keys, and
  goes into one group.
\<close>

definition parse_thirtytwo_machine_format :: "ucd \<Rightarrow> pystr list \<Rightarrow> exn + quote_group list" where
  "parse_thirtytwo_machine_format U lines =
     (case dropWhile (\<lambda>l. \<not> is_thirtytwo_header U l) lines of
        [] \<Rightarrow> Inr []
      | header # rows \<Rightarrow> consolidated U (concat (map snd (thirtytwo_rows U [] [] rows))))"

section \<open>Format detection\<close>

text \<open>
  \<open>detect_format_and_parse\<close>, the engine's entry point: the vendor keywords in order,
  else the three strategies in turn until one returns a non-empty list.
\<close>

definition detect_format_and_parse :: "ucd \<Rightarrow> pystr list \<Rightarrow> exn + quote_group list" where
  "detect_format_and_parse U lines =
     (let text_content = upper U (join (asc '' '') lines)
      in if contains text_content (asc ''VTN MANUFACTURING'') then parse_vtn_format U lines
         else if contains text_content (asc ''SEMATOOL'') then parse_sematool_format U lines
         else if contains text_content (asc ''THIRTY-TWO MACHINE'')
                 \<or> contains text_content (asc ''32 MACHINE+DESIGN'')
              then parse_thirtytwo_machine_format U lines
         else case parse_vtn_format U lines of
                Inl e \<Rightarrow> Inl e
              | Inr (g # gs) \<Rightarrow> Inr (g # gs)
              | Inr [] \<Rightarrow>
                  (case parse_sematool_format U lines of
                     Inl e \<Rightarrow> Inl e
                   | Inr (g # gs) \<Rightarrow> Inr (g # gs)
                   | Inr [] \<Rightarrow> parse_thirtytwo_machine_format U lines))"

section \<open>The totals of a group in the specification\<close>




text \<open>
  Claim C8: \<open>normalize_price\<close> maps \<open>$2,000.00\<close> to \<open>2000.00\<close>, \<open> (euro) 1234 \<close> to
  \<open>1234.00\<close>, \<open>-$5.50\<close> to \<open>-5.50\<close>, \<open>abc\<close> to \<open>0.00\<close> and the empty string to
  \<open>0.00\<close>.
\<close>

theorem normalize_price_examples:
  "normalize_price U (asc ''$2,000.00'') = asc ''2000.00''
   \<and> normalize_price U ([32, 8364, 32] @ asc ''1234 '') = asc ''1234.00''
   \<and> normalize_price U (asc ''-$5.50'') = asc ''-5.50''
   \<and> normalize_price U (asc ''abc'') = asc ''0.00''
   \<and> normalize_price U [] = asc ''0.00''"
  by code_simp

section \<open>The scenarios of the specification\<close>

text \<open>
  Claim C1 (scenario 1): a document with the text \<open>VTN MANUFACTURING\<close> and the line
  \<open>10 ABC123 Widget A 12.50 125.00\<close> should give one group with quantity \<open>10\<close>, unit
  price \<open>12.50\<close> and total \<open>125.00\<close>.  On the code the scanner returns the matches of
  its second pattern last, so the last price of the line is \<open>0.00\<close> (from the text
  \<open>00\<close>), and the price-removal loop reaches \<open>re.rsplit\<close>: the line raises, is passed
  over, and the result is empty.
\<close>

theorem scenario_1_no_group:
  "extract_prices_from_line U (asc ''10 ABC123 Widget A 12.50 125.00'')
     = map asc [''12.50'', ''125.00'', ''10.00'', ''123.00'', ''12.00'', ''50.00'',
                ''125.00'', ''0.00'']
   \<and> vtn_line U (asc ''10 ABC123 Widget A 12.50 125.00'') = Inl AttributeError
   \<and> detect_format_and_parse U
        [asc ''VTN MANUFACTURING'', asc ''10 ABC123 Widget A 12.50 125.00''] = Inr []"
  by code_simp

text \<open>
  Claim C2 (scenario 2): the header \<open>Item Description Quantity Price Amount\<close>, the row
  \<open>1 Bracket 5 $3.00 $15.00\<close> and \<open>Total: $15.00\<close> should give one group with
  quantity \<open>5\<close>.  On the code no strategy accepts the row (its last scanned price is
  \<open>0.00\<close>), and the result is empty.
\<close>

theorem scenario_2_no_group:
  "sematool_line U (asc ''1 Bracket 5 $3.00 $15.00'') = Inr None
   \<and> detect_format_and_parse U
        [asc ''Item Description Quantity Price Amount'',
         asc ''1 Bracket 5 $3.00 $15.00'',
         asc ''Total: $15.00''] = Inr []"
  by code_simp

section \<open>The rejection rule\<close>

text \<open>
  Claim C4: no line item of the output has an empty description, a quantity equal to
  zero, a unit price \<open>0.00\<close> or a cost \<open>0.00\<close>.  The code compares the quantity with
  the text \<open>0\<close>, so a quantity written \<open>00\<close> passes: the document with the single line
  \<open>00 ab 1.5 2.5\<close> gives an item whose quantity is \<open>00\<close>, which \<open>int\<close> reads as 0.
\<close>

theorem zero_quantity_item_accepted:
  "detect_format_and_parse U [asc ''00 ab 1.5 2.5'']
     = Inr [\<lparr>group_quantity = asc ''0'', group_unitPrice = asc ''0.00'',
             totalPrice = asc ''5.00'',
             lineItems = [\<lparr>description = asc ''ab 1.5 2.5'', quantity = asc ''00'',
                           unitPrice = asc ''2.00'', cost = asc ''5.00''\<rparr>]\<rparr>]
   \<and> py_int U (asc ''00'') = Some 0"
  by code_simp

section \<open>Properties of normalize_price\<close>

text \<open>
  Claim C7: \<open>normalize_price\<close> never raises and always returns a decimal string with
  exactly two digits after the point.  \<open>float\<close> also reads \<open>inf\<close>, \<open>infinity\<close> and
  \<open>nan\<close> (and gives infinity for a literal too large), and these are formatted as
  \<open>inf\<close> and \<open>nan\<close>.
\<close>

theorem normalize_price_inf_nan:
  "normalize_price U (asc ''inf'') = asc ''inf''
   \<and> normalize_price U (asc ''-Infinity'') = asc ''-inf''
   \<and> normalize_price U (asc ''nan'') = asc ''nan''"
  by code_simp

section \<open>The header of strategy B\<close>

lemma no_header_dropWhile:
  "list_all (\<lambda>l. \<not> P l) xs \<Longrightarrow> dropWhile (\<lambda>l. \<not> P l) xs = []"
  by (induction xs) auto

lemma header_dropWhile:
  "list_all (\<lambda>l. \<not> P l) pre \<Longrightarrow> P h \<Longrightarrow> dropWhile (\<lambda>l. \<not> P l) (pre @ h # rows) = h # rows"
  by (induction pre) auto

text \<open>
  Claim C6, as amended: \<open>parse_sematool_format\<close> returns no group for a document in
  which no line contains, case-insensitively, at least one of \<open>item\<close>,
  \<open>description\<close>, \<open>quantity\<close>, \<open>price\<close>, \<open>amount\<close>; and the rows that are
  processed are the lines after the first line that contains one of them.
\<close>

theorem sematool_header_any:
  "(list_all (\<lambda>l. \<not> is_sematool_header U l) lines \<longrightarrow> parse_sematool_format U lines = Inr [])
   \<and> (list_all (\<lambda>l. \<not> is_sematool_header U l) pre \<and> is_sematool_header U h
        \<longrightarrow> parse_sematool_format U (pre @ h # rows) = consolidated U (sematool_rows U rows))"
  by (simp add: parse_sematool_format_def no_header_dropWhile header_dropWhile)

theorem sematool_header_any_witness:
  "\<forall>U. list_all (\<lambda>l. \<not> is_sematool_header U l) [asc ''Bracket 5 x 7'']
     \<and> parse_sematool_format U [asc ''Bracket 5 x 7''] = Inr []
     \<and> list_all (\<lambda>l. \<not> is_sematool_header U l) [asc ''Bracket 5 x 7'']
     \<and> is_sematool_header U (asc ''Price list'')
     \<and> parse_sematool_format U ([asc ''Bracket 5 x 7''] @ asc ''Price list'' # [asc ''ab 1.5 2.5''])
         = consolidated U (sematool_rows U [asc ''ab 1.5 2.5''])"
proof
  fix U
  have a: "list_all (\<lambda>l. \<not> is_sematool_header U l) [asc ''Bracket 5 x 7'']"
    by code_simp
  have b: "is_sematool_header U (asc ''Price list'')"
    by code_simp
  show "list_all (\<lambda>l. \<not> is_sematool_header U l) [asc ''Bracket 5 x 7'']
     \<and> parse_sematool_format U [asc ''Bracket 5 x 7''] = Inr []
     \<and> list_all (\<lambda>l. \<not> is_sematool_header U l) [asc ''Bracket 5 x 7'']
     \<and> is_sematool_header U (asc ''Price list'')
     \<and> parse_sematool_format U ([asc ''Bracket 5 x 7''] @ asc ''Price list'' # [asc ''ab 1.5 2.5''])
         = consolidated U (sematool_rows U [asc ''ab 1.5 2.5''])"
    using a b sematool_header_any [of U "[asc ''Bracket 5 x 7'']" "[asc ''Bracket 5 x 7'']"
        "asc ''Price list''" "[asc ''ab 1.5 2.5'']"]
    by blast
qed

text \<open>
  The claim as stated asks for all five words in one line.  In the document below no
  line has all five, the first line has only \<open>price\<close>, and a group is returned.
\<close>

theorem sematool_header_counterexample:
  "\<forall>U. \<not> list_ex (\<lambda>l. list_all (\<lambda>h. contains (lower U l) h) sematool_headers)
          [asc ''Price list'', asc ''ab 1.5 2.5'']
     \<and> parse_sematool_format U [asc ''Price list'', asc ''ab 1.5 2.5'']
         = Inr [\<lparr>group_quantity = asc ''1'', group_unitPrice = asc ''5.00'',
                 totalPrice = asc ''5.00'',
                 lineItems = [\<lparr>description = asc ''ab . .'', quantity = asc ''1'',
                               unitPrice = asc ''2.00'', cost = asc ''5.00''\<rparr>]\<rparr>]"
proof
  fix U
  show "\<not> list_ex (\<lambda>l. list_all (\<lambda>h. contains (lower U l) h) sematool_headers)
          [asc ''Price list'', asc ''ab 1.5 2.5'']
     \<and> parse_sematool_format U [asc ''Price list'', asc ''ab 1.5 2.5'']
         = Inr [\<lparr>group_quantity = asc ''1'', group_unitPrice = asc ''5.00'',
                 totalPrice = asc ''5.00'',
                 lineItems = [\<lparr>description = asc ''ab . .'', quantity = asc ''1'',
                               unitPrice = asc ''2.00'', cost = asc ''5.00''\<rparr>]\<rparr>]"
    by code_simp
qed

section \<open>The leading quantity of strategy A\<close>

text \<open>
  Claim C10: in \<open>parse_vtn_format\<close> a line whose leading integer exceeds 10000 is not
  skipped: the integer is discarded and, if the line otherwise passes the price and
  rejection checks, an item is produced with the quantity \<open>1\<close>.  The line
  \<open>20000 Widget 3 4\<close> has three prices, its leading integer is matched and read as
  20000, and the description \<open>Widget\<close> with the quantity \<open>1\<close>, the unit price
  \<open>3.00\<close> and the cost \<open>4.00\<close> passes the rejection test.  On the code the
  price-removal loop finds the cost at the right end of the line and calls
  \<open>re.rsplit\<close>: the line raises and is passed over, and no item is produced.  Nor is
  the integer discarded where the loop is not reached: on \<open>20000 ab - 5\<close> it stays in
  the list of prices and becomes the unit price of the item.
\<close>

theorem vtn_large_leading_integer_no_item:
  "extract_prices_from_line U (asc ''20000 Widget 3 4'')
     = map asc [''20000.00'', ''3.00'', ''4.00'']
   \<and> re_match (qty_pattern U) (asc ''20000 Widget 3 4'')
       = Some \<lparr>m_start = 0, m_end = 6, m_caps = [(1, 0, 5)]\<rparr>
   \<and> py_int U (asc ''20000'') = Some 20000
   \<and> accepted (asc ''Widget'') (asc ''1'') (asc ''3.00'') (asc ''4.00'')
   \<and> vtn_line U (asc ''20000 Widget 3 4'') = Inl AttributeError
   \<and> parse_vtn_format U [asc ''20000 Widget 3 4''] = Inr []
   \<and> detect_format_and_parse U [asc ''20000 Widget 3 4''] = Inr []
   \<and> parse_vtn_format U [asc ''20000 ab - 5'']
       = Inr [\<lparr>group_quantity = asc ''1'', group_unitPrice = asc ''-5.00'',
               totalPrice = asc ''-5.00'',
               lineItems = [\<lparr>description = asc ''ab - 5'', quantity = asc ''1'',
                             unitPrice = asc ''20000.00'', cost = asc ''-5.00''\<rparr>]\<rparr>]"
  by code_simp

section \<open>The order of the scanned prices\<close>

text \<open>
  Claim C5: \<open>extract_prices_from_line\<close> returns the normalised prices in the
  left-to-right order in which their raw substrings appear in the line.  The code runs
  its first pattern over the whole line, then its second one, and puts the matches of the
  second after those of the first.  On the line \<open>10 12.50\<close> the first pattern matches
  \<open> 12.50\<close> at position 2, the second matches \<open>10\<close> at position 0, \<open> 12\<close> at
  position 2 and \<open>50\<close> at position 6: the result begins with \<open>12.50\<close>, and
  \<open>10.00\<close>, whose text stands to the left of it, comes second.
\<close>

theorem extract_prices_not_in_line_order:
  "extract_prices_from_line U (asc ''10 12.50'')
     = map asc [''12.50'', ''10.00'', ''12.00'', ''50.00'']
   \<and> findall (price_pattern_1 U) (asc ''10 12.50'') = map asc ['' 12.50'']
   \<and> map m_start (finditer (price_pattern_1 U) (asc ''10 12.50'')) = [2]
   \<and> findall (price_pattern_2 U) (asc ''10 12.50'') = map asc [''10'', '' 12'', ''50'']
   \<and> map m_start (finditer (price_pattern_2 U) (asc ''10 12.50'')) = [0, 2, 6]"
  by code_simp

section \<open>The totals of a group\<close>












end
